theory Spec2Isabelle
  imports Complex_Main
begin

section \<open>Data model (types.ts)\<close>

text \<open>
  JavaScript numbers are modelled as exact reals throughout: the development verifies the
  arithmetic the code writes down, not the rounding of IEEE doubles.
\<close>

datatype FeedbackType = OPTIMAL | GREAT | GOOD | BAD

record CarBias =
  oversteer :: real
  brakingStability :: real
  cornering :: real
  traction :: real
  straights :: real

record SetupParameters =
  frontWingAngle :: real
  rearWingAngle :: real
  antiRollDistribution :: real
  tyreCamber :: real
  toeOut :: real

text \<open>The fields of \<open>Biasfeedback\<close> carry the prefix \<open>fb_\<close>: the source reuses the
  five metric names of \<open>CarBias\<close>.\<close>

record Biasfeedback =
  fb_oversteer :: FeedbackType
  fb_brakingStability :: FeedbackType
  fb_cornering :: FeedbackType
  fb_traction :: FeedbackType
  fb_straights :: FeedbackType

section \<open>SimpleMatrix (matrix.ts)\<close>

text \<open>The two \<open>throw new Error(...)\<close> sites of matrix.ts, and the TypeError JavaScript
  raises when \<open>getRow\<close> spreads a row that does not exist.\<close>

datatype error = SubDimensionError | MulDimensionError | TypeError

record SimpleMatrix =
  data :: "real list list"
  rows :: nat
  columns :: nat

text \<open>The constructor: \<open>rows = data.length\<close>, \<open>columns = data[0]?.length || 0\<close>.\<close>

definition newMatrix :: "real list list \<Rightarrow> SimpleMatrix" where
  "newMatrix d =
     \<lparr>data = d, rows = length d, columns = (case d of [] \<Rightarrow> 0 | r # _ \<Rightarrow> length r)\<rparr>"

definition getRow :: "SimpleMatrix \<Rightarrow> nat \<Rightarrow> error + real list" where
  "getRow m index = (if index < length (data m) then Inr (data m ! index) else Inl TypeError)"

text \<open>
  The loops of \<open>sub\<close>, \<open>mmul\<close> and \<open>transpose\<close> run over \<open>0..<rows\<close> and \<open>0..<columns\<close>.
  Every matrix built in this development is rectangular, so each cell read below is in
  range wherever the functions are applied.
\<close>

definition sub :: "SimpleMatrix \<Rightarrow> SimpleMatrix \<Rightarrow> error + SimpleMatrix" where
  "sub a other =
     (if rows a \<noteq> rows other \<or> columns a \<noteq> columns other then Inl SubDimensionError
      else Inr (newMatrix
        (map (\<lambda>i. map (\<lambda>j. data a ! i ! j - data other ! i ! j) [0..<columns a])
             [0..<rows a])))"

definition mmul :: "SimpleMatrix \<Rightarrow> SimpleMatrix \<Rightarrow> error + SimpleMatrix" where
  "mmul a other =
     (if columns a \<noteq> rows other then Inl MulDimensionError
      else Inr (newMatrix
        (map (\<lambda>i. map (\<lambda>j. fold (\<lambda>k sum. sum + data a ! i ! k * data other ! k ! j)
                                   [0..<columns a] 0)
                        [0..<columns other])
             [0..<rows a])))"

definition transpose_matrix :: "SimpleMatrix \<Rightarrow> SimpleMatrix" where
  "transpose_matrix a =
     newMatrix (map (\<lambda>j. map (\<lambda>i. data a ! i ! j) [0..<rows a]) [0..<columns a])"

section \<open>SetupCalculator (calculator.ts)\<close>

definition coefficientMatrix :: SimpleMatrix where
  "coefficientMatrix = newMatrix
     [[0.4, -0.4, -0.1, 0.1, 0.2],
      [-0.2, 0.2, 0.15, -0.25, -0.05],
      [0.3, 0.25, -0.15, 0.25, 0],
      [-0.15, 0.25, 0.5, -0.1, 0],
      [-0.1, -0.9, 0, 0, 0]]"

definition initialBias :: CarBias where
  "initialBias = \<lparr>oversteer = 0.5, brakingStability = 0.45, cornering = 0.2,
                   traction = 0.25, straights = 1.0\<rparr>"

definition tolerance_optimal :: real where "tolerance_optimal = 0.007"
definition tolerance_great :: real where "tolerance_great = 0.04"
definition tolerance_good :: real where "tolerance_good = 0.1"

definition calculateBias :: "SetupParameters \<Rightarrow> error + CarBias" where
  "calculateBias s =
     (let setupArray = [frontWingAngle s, rearWingAngle s,
                        antiRollDistribution s, tyreCamber s, toeOut s];
          setupVector = newMatrix [setupArray];
          middleSetup = newMatrix [[0.5, 0.5, 0.5, 0.5, 0.5]]
      in case sub setupVector middleSetup of
           Inl e \<Rightarrow> Inl e
         | Inr setupDiff \<Rightarrow>
             (case mmul setupDiff (transpose_matrix coefficientMatrix) of
                Inl e \<Rightarrow> Inl e
              | Inr biasChanges \<Rightarrow>
                  (case getRow biasChanges 0 of
                     Inl e \<Rightarrow> Inl e
                   | Inr biasArray \<Rightarrow>
                       Inr \<lparr>oversteer = oversteer initialBias + biasArray ! 0,
                            brakingStability = brakingStability initialBias + biasArray ! 1,
                            cornering = cornering initialBias + biasArray ! 2,
                            traction = traction initialBias + biasArray ! 3,
                            straights = straights initialBias + biasArray ! 4\<rparr>)))"

text \<open>\<open>calculateConfidence\<close>: the \<open>for ... of\<close> loop over the five bias values, with the
  running total as the accumulator.\<close>

definition confidenceStep :: "real \<Rightarrow> real \<Rightarrow> real" where
  "confidenceStep val totalConfidence =
     (let distance = \<bar>val - 0.5\<bar>
      in if distance > tolerance_optimal
         then (let penalty = min (distance * 100) 20 in totalConfidence - penalty)
         else totalConfidence)"

definition calculateConfidence :: "CarBias \<Rightarrow> real" where
  "calculateConfidence bias =
     (let biasValues = [oversteer bias, brakingStability bias, cornering bias,
                        traction bias, straights bias];
          totalConfidence = fold confidenceStep biasValues 100
      in max 0 totalConfidence)"

text \<open>\<open>classifyFeedback\<close>: one level for a whole bias vector, from the mean distance.\<close>

definition classifyFeedback :: "CarBias \<Rightarrow> FeedbackType" where
  "classifyFeedback b =
     (let distances = [\<bar>oversteer b - 0.5\<bar>, \<bar>brakingStability b - 0.5\<bar>,
                       \<bar>cornering b - 0.5\<bar>, \<bar>traction b - 0.5\<bar>,
                       \<bar>straights b - 0.5\<bar>];
          avgDistance = foldl (+) (hd distances) (tl distances) / real (length distances)
      in if avgDistance \<le> tolerance_optimal then OPTIMAL
         else if avgDistance \<le> tolerance_great then GREAT
         else if avgDistance \<le> tolerance_good then GOOD
         else BAD)"

text \<open>\<open>Array.prototype.indexOf\<close>: the first position of the element, \<open>-1\<close> when absent.\<close>

fun indexOf :: "'a list \<Rightarrow> 'a \<Rightarrow> int" where
  "indexOf [] x = -1"
| "indexOf (y # ys) x =
     (if y = x then 0 else (let r = indexOf ys x in if r = -1 then -1 else r + 1))"

text \<open>The private \<open>feedbackMatches\<close> of the calculator (two feedback levels); the optimizer
  has a method of the same name on whole feedback objects, modelled below.\<close>

definition calculator_feedbackMatches :: "FeedbackType \<Rightarrow> FeedbackType \<Rightarrow> bool" where
  "calculator_feedbackMatches calculated expected =
     (let feedbackOrder = [BAD, GOOD, GREAT, OPTIMAL];
          calcIndex = indexOf feedbackOrder calculated;
          expIndex = indexOf feedbackOrder expected
      in \<bar>calcIndex - expIndex\<bar> \<le> 1)"

section \<open>IterativeOptimizer (optimizer.ts)\<close>

text \<open>The field \<open>setup\<close> of a candidate is named \<open>cand_setup\<close>.\<close>

record SetupCandidate =
  cand_setup :: SetupParameters
  bias :: CarBias
  confidence :: real
  feedback :: Biasfeedback
  score :: real

text \<open>An entry of \<open>attemptHistory\<close>; the source's field names \<open>setup\<close>, \<open>feedback\<close>,
  \<open>confidence\<close> carry the prefix \<open>att_\<close> here.\<close>

record AttemptRecord =
  att_setup :: SetupParameters
  att_feedback :: Biasfeedback
  att_confidence :: real

text \<open>The mutable fields of the class; the \<open>calculator\<close> field holds only constants.\<close>

record IterativeOptimizer =
  candidates :: "SetupCandidate list"
  attemptHistory :: "AttemptRecord list"

record Stats =
  totalCandidates :: nat
  attemptCount :: nat
  bestConfidence :: real
  convergenceRate :: real

definition classifyBiasMetric :: "real \<Rightarrow> FeedbackType" where
  "classifyBiasMetric val =
     (let distance = \<bar>val - 0.5\<bar>
      in if distance \<le> 0.007 then OPTIMAL
         else if distance \<le> 0.04 then GREAT
         else if distance \<le> 0.1 then GOOD
         else BAD)"

definition generateFeedback :: "CarBias \<Rightarrow> Biasfeedback" where
  "generateFeedback b =
     \<lparr>fb_oversteer = classifyBiasMetric (oversteer b),
      fb_brakingStability = classifyBiasMetric (brakingStability b),
      fb_cornering = classifyBiasMetric (cornering b),
      fb_traction = classifyBiasMetric (traction b),
      fb_straights = classifyBiasMetric (straights b)\<rparr>"

definition calculateScore :: "SetupParameters \<Rightarrow> CarBias \<Rightarrow> real \<Rightarrow> real" where
  "calculateScore s b conf =
     (let setupValues = [frontWingAngle s, rearWingAngle s, antiRollDistribution s,
                         tyreCamber s, toeOut s];
          balance = foldl (\<lambda>sum val. sum + \<bar>val - 0.5\<bar>) 0 setupValues
                      / real (length setupValues);
          score1 = conf + (0.5 - balance) * 20;
          biasValues = [oversteer b, brakingStability b, cornering b, traction b,
                        straights b];
          extremeBias = foldl (\<lambda>sum val.
                            if val < 0 \<or> val > 1
                            then sum + \<bar>if val < 0 then val else val - 1\<bar> * 50
                            else sum) 0 biasValues
      in max 0 (score1 - extremeBias))"

text \<open>
  \<open>candidates.sort((a, b) => b.score - a.score)\<close>: the built-in sort is stable and orders
  by the comparator, here by descending score; it is modelled by the stable insertion
  sort of the library on the negated score.
\<close>

definition sortByScore :: "SetupCandidate list \<Rightarrow> SetupCandidate list" where
  "sortByScore cs = sort_key (\<lambda>c. - score c) cs"

text \<open>The loop header \<open>for (let x = i; x <= steps; x += 2)\<close>: the values \<open>x\<close> takes.\<close>

function forBy2 :: "nat \<Rightarrow> nat \<Rightarrow> nat list" where
  "forBy2 i steps = (if i \<le> steps then i # forBy2 (i + 2) steps else [])"
  by pat_completeness auto
termination
  by (relation "measure (\<lambda>(i, steps). Suc steps - i)") auto

definition gridSetups :: "nat \<Rightarrow> SetupParameters list" where
  "gridSetups steps =
     [\<lparr>frontWingAngle = real fw / real steps, rearWingAngle = real rw / real steps,
       antiRollDistribution = real ar / real steps, tyreCamber = real tc / real steps,
       toeOut = real to / real steps\<rparr>.
        fw \<leftarrow> forBy2 0 steps, rw \<leftarrow> forBy2 0 steps, ar \<leftarrow> forBy2 0 steps,
        tc \<leftarrow> forBy2 0 steps, to \<leftarrow> forBy2 0 steps]"

text \<open>The body of the innermost loop of \<open>initializeCandidates\<close>, run over the grid in
  loop order: each setup is evaluated and pushed onto the pool.\<close>

fun pushCandidates ::
  "SetupParameters list \<Rightarrow> SetupCandidate list \<Rightarrow> error + SetupCandidate list" where
  "pushCandidates [] pool = Inr pool"
| "pushCandidates (s # ss) pool =
     (case calculateBias s of
        Inl e \<Rightarrow> Inl e
      | Inr b \<Rightarrow>
          (let conf = calculateConfidence b;
               fb = generateFeedback b;
               sc = calculateScore s b conf
           in pushCandidates ss
                (pool @ [\<lparr>cand_setup = s, bias = b, confidence = conf, feedback = fb,
                          score = sc\<rparr>])))"

definition initializeCandidates :: "IterativeOptimizer \<Rightarrow> error + IterativeOptimizer" where
  "initializeCandidates st =
     (let steps = 10
      in case pushCandidates (gridSetups steps) [] of
           Inl e \<Rightarrow> Inl e
         | Inr pool \<Rightarrow> Inr (st\<lparr>candidates := sortByScore pool\<rparr>))"

text \<open>The constructor.\<close>

definition newOptimizer :: "error + IterativeOptimizer" where
  "newOptimizer = initializeCandidates \<lparr>candidates = [], attemptHistory = []\<rparr>"

definition reset :: "IterativeOptimizer \<Rightarrow> error + IterativeOptimizer" where
  "reset st = initializeCandidates (st\<lparr>attemptHistory := []\<rparr>)"

definition feedbackCompatible :: "FeedbackType \<Rightarrow> FeedbackType \<Rightarrow> bool" where
  "feedbackCompatible calculated expected =
     (let feedbackOrder = [BAD, GOOD, GREAT, OPTIMAL];
          calcIndex = indexOf feedbackOrder calculated;
          expIndex = indexOf feedbackOrder expected
      in \<bar>calcIndex - expIndex\<bar> \<le> 1)"

text \<open>The array \<open>metrics\<close> of field names, as the list of the five selectors.\<close>

definition metrics :: "(Biasfeedback \<Rightarrow> FeedbackType) list" where
  "metrics = [fb_oversteer, fb_brakingStability, fb_cornering, fb_traction, fb_straights]"

definition feedbackMatches :: "Biasfeedback \<Rightarrow> Biasfeedback \<Rightarrow> bool" where
  "feedbackMatches calculated expected =
     list_all (\<lambda>metric. feedbackCompatible (metric calculated) (metric expected)) metrics"

definition clamp :: "real \<Rightarrow> real \<Rightarrow> real \<Rightarrow> real" where
  "clamp val lo hi = max lo (min hi val)"

text \<open>
  \<open>Math.random()\<close> is modelled by the sequence of values it returns: \<open>rnd n\<close> is the
  \<open>n\<close>-th draw made from the start of the call. A variation draws five numbers, in the
  order of the fields of the object literal. The parameter \<open>range\<close> is named \<open>rng\<close>.
\<close>

definition generateVariations ::
  "(nat \<Rightarrow> real) \<Rightarrow> SetupParameters \<Rightarrow> real \<Rightarrow> nat \<Rightarrow> SetupParameters list" where
  "generateVariations rnd baseSetup rng count =
     map (\<lambda>i. \<lparr>frontWingAngle =
                   clamp (frontWingAngle baseSetup + (rnd (5 * i) - 0.5) * rng) 0 1,
                rearWingAngle =
                   clamp (rearWingAngle baseSetup + (rnd (5 * i + 1) - 0.5) * rng) 0 1,
                antiRollDistribution =
                   clamp (antiRollDistribution baseSetup + (rnd (5 * i + 2) - 0.5) * rng) 0 1,
                tyreCamber =
                   clamp (tyreCamber baseSetup + (rnd (5 * i + 3) - 0.5) * rng) 0 1,
                toeOut =
                   clamp (toeOut baseSetup + (rnd (5 * i + 4) - 0.5) * rng) 0 1\<rparr>)
         [0..<count]"

text \<open>The inner loop of \<open>expandCandidatesAroundBest\<close> over the variations of one
  candidate: a variation is pushed onto \<open>newCandidates\<close> only when its own feedback
  matches the submitted one.\<close>

fun pushMatching ::
  "Biasfeedback \<Rightarrow> SetupParameters list \<Rightarrow> SetupCandidate list \<Rightarrow> error + SetupCandidate list"
  where
  "pushMatching fb [] newCandidates = Inr newCandidates"
| "pushMatching fb (variation # vs) newCandidates =
     (case calculateBias variation of
        Inl e \<Rightarrow> Inl e
      | Inr b \<Rightarrow>
          (let conf = calculateConfidence b;
               candidateFeedback = generateFeedback b
           in if feedbackMatches candidateFeedback fb
              then (let sc = calculateScore variation b conf
                    in pushMatching fb vs
                         (newCandidates @ [\<lparr>cand_setup = variation, bias = b, confidence = conf,
                                            feedback = candidateFeedback, score = sc\<rparr>]))
              else pushMatching fb vs newCandidates))"

text \<open>The outer loop over \<open>topCandidates\<close>; \<open>drawn\<close> counts the random numbers consumed
  so far (25 for each candidate: 5 variations of 5 parameters).\<close>

fun expandLoop ::
  "(nat \<Rightarrow> real) \<Rightarrow> nat \<Rightarrow> Biasfeedback \<Rightarrow> SetupCandidate list \<Rightarrow> SetupCandidate list
     \<Rightarrow> error + SetupCandidate list" where
  "expandLoop rnd drawn fb [] newCandidates = Inr newCandidates"
| "expandLoop rnd drawn fb (candidate # cs) newCandidates =
     (let variations = generateVariations (\<lambda>n. rnd (drawn + n)) (cand_setup candidate) 0.1 5
      in case pushMatching fb variations newCandidates of
           Inl e \<Rightarrow> Inl e
         | Inr newCandidates' \<Rightarrow> expandLoop rnd (drawn + 25) fb cs newCandidates')"

definition expandCandidatesAroundBest ::
  "(nat \<Rightarrow> real) \<Rightarrow> Biasfeedback \<Rightarrow> IterativeOptimizer \<Rightarrow> error + IterativeOptimizer" where
  "expandCandidatesAroundBest rnd fb st =
     (let topCandidates = take 3 (candidates st)
      in case expandLoop rnd 0 fb topCandidates [] of
           Inl e \<Rightarrow> Inl e
         | Inr newCandidates \<Rightarrow> Inr (st\<lparr>candidates := candidates st @ newCandidates\<rparr>))"

definition narrowCandidates ::
  "(nat \<Rightarrow> real) \<Rightarrow> Biasfeedback \<Rightarrow> IterativeOptimizer \<Rightarrow> error + IterativeOptimizer" where
  "narrowCandidates rnd fb st =
     (let st1 = st\<lparr>candidates :=
                    filter (\<lambda>candidate. feedbackMatches (feedback candidate) fb)
                           (candidates st)\<rparr>
      in case (if length (candidates st1) < 5 then expandCandidatesAroundBest rnd fb st1
               else Inr st1) of
           Inl e \<Rightarrow> Inl e
         | Inr st2 \<Rightarrow> Inr (st2\<lparr>candidates := sortByScore (candidates st2)\<rparr>))"

definition recordAttempt ::
  "(nat \<Rightarrow> real) \<Rightarrow> SetupParameters \<Rightarrow> Biasfeedback \<Rightarrow> IterativeOptimizer
     \<Rightarrow> error + IterativeOptimizer" where
  "recordAttempt rnd s fb st =
     (case calculateBias s of
        Inl e \<Rightarrow> Inl e
      | Inr b \<Rightarrow>
          (let conf = calculateConfidence b;
               st1 = st\<lparr>attemptHistory := attemptHistory st @
                          [\<lparr>att_setup = s, att_feedback = fb, att_confidence = conf\<rparr>]\<rparr>
           in narrowCandidates rnd fb st1))"

definition calculateConvergenceRate :: "IterativeOptimizer \<Rightarrow> real" where
  "calculateConvergenceRate st =
     (if length (attemptHistory st) < 2 then 0
      else (let confidences = map att_confidence (attemptHistory st);
                improvements = map (\<lambda>i. confidences ! i - confidences ! (i - 1))
                                   [1..<length confidences];
                avgImprovement = foldl (+) 0 improvements / real (length improvements)
            in max 0 avgImprovement))"

definition getStats :: "IterativeOptimizer \<Rightarrow> Stats" where
  "getStats st =
     (let best = (if length (candidates st) > 0 then confidence (candidates st ! 0) else 0);
          rate = calculateConvergenceRate st
      in \<lparr>totalCandidates = length (candidates st),
          attemptCount = length (attemptHistory st),
          bestConfidence = best,
          convergenceRate = rate\<rparr>)"

definition predictConfidence :: "SetupParameters \<Rightarrow> error + real" where
  "predictConfidence s =
     (case calculateBias s of Inl e \<Rightarrow> Inl e | Inr b \<Rightarrow> Inr (calculateConfidence b))"

definition isOptimal :: "IterativeOptimizer \<Rightarrow> bool" where
  "isOptimal st =
     (if length (candidates st) = 0 then False
      else (let best = confidence (candidates st ! 0) in best \<ge> 99.0))"

definition estimateAttemptsToOptimal :: "IterativeOptimizer \<Rightarrow> int" where
  "estimateAttemptsToOptimal st =
     (let stats = getStats st
      in if bestConfidence stats \<ge> 99 then 0
         else if convergenceRate stats \<le> 0 then 5
         else (let remaining = 99 - bestConfidence stats
               in \<lceil>remaining / convergenceRate stats\<rceil>))"

section \<open>The specification's formulations\<close>

text \<open>The definitions of this section follow the words of the specification; the
  theorems below compare them with the functions translated from the code.\<close>

definition dot :: "real list \<Rightarrow> real list \<Rightarrow> real" where
  "dot xs ys = sum_list (map2 (*) xs ys)"

text \<open>\<open>bias = initialBias + CoefficientMatrix \<cdot> (setup - 0.5\<cdot>1)\<close>, one dot product of a
  matrix row with the centred setup for each bias metric.\<close>

definition specBias :: "SetupParameters \<Rightarrow> CarBias" where
  "specBias s =
     (let centred = map (\<lambda>x. x - 0.5)
                      [frontWingAngle s, rearWingAngle s, antiRollDistribution s,
                       tyreCamber s, toeOut s];
          row = (\<lambda>i. data coefficientMatrix ! i)
      in \<lparr>oversteer = oversteer initialBias + dot (row 0) centred,
          brakingStability = brakingStability initialBias + dot (row 1) centred,
          cornering = cornering initialBias + dot (row 2) centred,
          traction = traction initialBias + dot (row 3) centred,
          straights = straights initialBias + dot (row 4) centred\<rparr>)"

definition midSetup :: SetupParameters where
  "midSetup = \<lparr>frontWingAngle = 0.5, rearWingAngle = 0.5, antiRollDistribution = 0.5,
                tyreCamber = 0.5, toeOut = 0.5\<rparr>"

text \<open>The penalty of one bias component, and the confidence as 100 minus the five
  penalties, clamped at 0.\<close>

definition specPenalty :: "real \<Rightarrow> real" where
  "specPenalty v = (if \<bar>v - 0.5\<bar> > 0.007 then min (\<bar>v - 0.5\<bar> * 100) 20 else 0)"

definition specConfidence :: "CarBias \<Rightarrow> real" where
  "specConfidence b =
     max 0 (100 - (specPenalty (oversteer b) + specPenalty (brakingStability b)
                   + specPenalty (cornering b) + specPenalty (traction b)
                   + specPenalty (straights b)))"

text \<open>The arithmetic mean of the successive confidence deltas; 0 with fewer than two
  confidences.\<close>

definition specMeanDelta :: "real list \<Rightarrow> real" where
  "specMeanDelta cs =
     (if length cs < 2 then 0
      else (\<Sum>i = 1..<length cs. cs ! i - cs ! (i - 1)) / real (length cs - 1))"

text \<open>The ordinal position in \<open>BAD < GOOD < GREAT < OPTIMAL\<close>.\<close>

fun ordinal :: "FeedbackType \<Rightarrow> nat" where
  "ordinal BAD = 0"
| "ordinal GOOD = 1"
| "ordinal GREAT = 2"
| "ordinal OPTIMAL = 3"

text \<open>\<open>a + b - m\<close> on setups and on biases, component by component.\<close>

definition setupCombine ::
  "SetupParameters \<Rightarrow> SetupParameters \<Rightarrow> SetupParameters \<Rightarrow> SetupParameters" where
  "setupCombine a b m =
     \<lparr>frontWingAngle = frontWingAngle a + frontWingAngle b - frontWingAngle m,
      rearWingAngle = rearWingAngle a + rearWingAngle b - rearWingAngle m,
      antiRollDistribution =
        antiRollDistribution a + antiRollDistribution b - antiRollDistribution m,
      tyreCamber = tyreCamber a + tyreCamber b - tyreCamber m,
      toeOut = toeOut a + toeOut b - toeOut m\<rparr>"

definition biasCombine :: "CarBias \<Rightarrow> CarBias \<Rightarrow> CarBias \<Rightarrow> CarBias" where
  "biasCombine a b m =
     \<lparr>oversteer = oversteer a + oversteer b - oversteer m,
      brakingStability = brakingStability a + brakingStability b - brakingStability m,
      cornering = cornering a + cornering b - cornering m,
      traction = traction a + traction b - traction m,
      straights = straights a + straights b - straights m\<rparr>"

text \<open>A pool sorted by score, highest first.\<close>

fun sortedByScoreDesc :: "SetupCandidate list \<Rightarrow> bool" where
  "sortedByScoreDesc [] = True"
| "sortedByScoreDesc [c] = True"
| "sortedByScoreDesc (c # d # cs) = (score c \<ge> score d \<and> sortedByScoreDesc (d # cs))"

section \<open>Concrete inputs\<close>

text \<open>A random source whose every draw is 0.5: each perturbation is then zero.\<close>

definition constRandom :: "nat \<Rightarrow> real" where
  "constRandom n = 0.5"

definition onesSetup :: SetupParameters where
  "onesSetup = \<lparr>frontWingAngle = 1, rearWingAngle = 1, antiRollDistribution = 1,
                 tyreCamber = 1, toeOut = 1\<rparr>"

text \<open>A setup whose front-wing angle lies outside \<open>[0, 1]\<close>.\<close>

definition outOfRangeSetup :: SetupParameters where
  "outOfRangeSetup = \<lparr>frontWingAngle = 2, rearWingAngle = 0.5, antiRollDistribution = 0.5,
                       tyreCamber = 0.5, toeOut = 0.5\<rparr>"

text \<open>The biases of the all-1 setup and of the out-of-range setup.\<close>

definition onesBias :: CarBias where
  "onesBias = \<lparr>oversteer = 0.6, brakingStability = 0.375, cornering = 0.525,
                traction = 0.5, straights = 0.5\<rparr>"

definition outOfRangeBias :: CarBias where
  "outOfRangeBias = \<lparr>oversteer = 1.1, brakingStability = 0.15, cornering = 0.65,
                      traction = 0.025, straights = 0.85\<rparr>"

definition sampleFeedback :: Biasfeedback where
  "sampleFeedback = \<lparr>fb_oversteer = GREAT, fb_brakingStability = GOOD, fb_cornering = BAD,
                      fb_traction = BAD, fb_straights = BAD\<rparr>"

definition emptyOptimizer :: IterativeOptimizer where
  "emptyOptimizer = \<lparr>candidates = [], attemptHistory = []\<rparr>"

text \<open>The candidate the code builds for the all-0.5 setup.\<close>

definition midFeedback :: Biasfeedback where
  "midFeedback = \<lparr>fb_oversteer = OPTIMAL, fb_brakingStability = GOOD, fb_cornering = BAD,
                   fb_traction = BAD, fb_straights = BAD\<rparr>"

definition midCandidate :: SetupCandidate where
  "midCandidate = \<lparr>cand_setup = midSetup, bias = initialBias, confidence = 35,
                    feedback = midFeedback, score = 45\<rparr>"

text \<open>A depleted pool of one candidate, and the pool after one recorded attempt with
  \<open>constRandom\<close>: the survivor and its five (unperturbed) variations.\<close>

definition depletedPool :: IterativeOptimizer where
  "depletedPool = \<lparr>candidates = [midCandidate], attemptHistory = []\<rparr>"

definition regeneratedPool :: IterativeOptimizer where
  "regeneratedPool =
     \<lparr>candidates = [midCandidate, midCandidate, midCandidate, midCandidate, midCandidate,
                     midCandidate],
      attemptHistory = [\<lparr>att_setup = midSetup, att_feedback = sampleFeedback,
                         att_confidence = 35\<rparr>]\<rparr>"

text \<open>Two recorded attempts on an empty pool: first the all-1 setup (confidence 75),
  then the all-0.5 setup (confidence 35), and the same in the other order.\<close>

text \<open>The candidate the code builds for the all-1 setup; its cornering feedback
  (\<open>GREAT\<close>) is not compatible with that of \<open>sampleFeedback\<close> (\<open>BAD\<close>).\<close>

definition onesFeedback :: Biasfeedback where
  "onesFeedback = \<lparr>fb_oversteer = GOOD, fb_brakingStability = BAD, fb_cornering = GREAT,
                    fb_traction = OPTIMAL, fb_straights = OPTIMAL\<rparr>"

definition onesCandidate :: SetupCandidate where
  "onesCandidate = \<lparr>cand_setup = onesSetup, bias = onesBias, confidence = 75,
                     feedback = onesFeedback, score = 75\<rparr>"

text \<open>A sorted pool of two candidates, and the state after recording the out-of-range
  setup with \<open>sampleFeedback\<close> and \<open>constRandom\<close>: the all-1 candidate is filtered out,
  the all-0.5 candidate survives and is joined by its five variations.\<close>

definition mixedPool :: IterativeOptimizer where
  "mixedPool = \<lparr>candidates = [onesCandidate, midCandidate], attemptHistory = []\<rparr>"

definition narrowedPool :: IterativeOptimizer where
  "narrowedPool =
     \<lparr>candidates = [midCandidate, midCandidate, midCandidate, midCandidate, midCandidate,
                     midCandidate],
      attemptHistory = [\<lparr>att_setup = outOfRangeSetup, att_feedback = sampleFeedback,
                         att_confidence = 5\<rparr>]\<rparr>"

definition oneAttempt :: IterativeOptimizer where
  "oneAttempt =
     \<lparr>candidates = [],
      attemptHistory =
        [\<lparr>att_setup = onesSetup, att_feedback = sampleFeedback, att_confidence = 75\<rparr>]\<rparr>"

definition decliningHistory :: IterativeOptimizer where
  "decliningHistory =
     \<lparr>candidates = [],
      attemptHistory =
        [\<lparr>att_setup = onesSetup, att_feedback = sampleFeedback, att_confidence = 75\<rparr>,
         \<lparr>att_setup = midSetup, att_feedback = sampleFeedback, att_confidence = 35\<rparr>]\<rparr>"

definition improvingState :: IterativeOptimizer where
  "improvingState =
     \<lparr>candidates = [midCandidate],
      attemptHistory =
        [\<lparr>att_setup = midSetup, att_feedback = sampleFeedback, att_confidence = 35\<rparr>,
         \<lparr>att_setup = onesSetup, att_feedback = sampleFeedback, att_confidence = 75\<rparr>]\<rparr>"

section \<open>The bias model\<close>

lemma upt5: "[0..<5] = [0, 1, 2, 3, 4]"
  by (simp add: upt_rec)

lemma transpose_coefficientMatrix:
  "transpose_matrix coefficientMatrix = newMatrix
     [[0.4, -0.2, 0.3, -0.15, -0.1],
      [-0.4, 0.2, 0.25, 0.25, -0.9],
      [-0.1, 0.15, -0.15, 0.5, 0],
      [0.1, -0.25, 0.25, -0.1, 0],
      [0.2, -0.05, 0, 0, 0]]"
  by (simp add: transpose_matrix_def coefficientMatrix_def newMatrix_def upt5)

text \<open>Both the matrix pipeline of the code and the dot products of the specification
  reduce to the same five affine expressions.\<close>

lemma specBias_unfold:
  "specBias s =
     \<lparr>oversteer = 0.5 + (0.4 * (frontWingAngle s - 0.5) - 0.4 * (rearWingAngle s - 0.5)
         - 0.1 * (antiRollDistribution s - 0.5) + 0.1 * (tyreCamber s - 0.5)
         + 0.2 * (toeOut s - 0.5)),
      brakingStability = 0.45 + (0.2 * (rearWingAngle s - 0.5)
         - 0.2 * (frontWingAngle s - 0.5) + 0.15 * (antiRollDistribution s - 0.5)
         - 0.25 * (tyreCamber s - 0.5) - 0.05 * (toeOut s - 0.5)),
      cornering = 0.2 + (0.3 * (frontWingAngle s - 0.5) + 0.25 * (rearWingAngle s - 0.5)
         - 0.15 * (antiRollDistribution s - 0.5) + 0.25 * (tyreCamber s - 0.5)),
      traction = 0.25 + (0.25 * (rearWingAngle s - 0.5) - 0.15 * (frontWingAngle s - 0.5)
         + 0.5 * (antiRollDistribution s - 0.5) - 0.1 * (tyreCamber s - 0.5)),
      straights = 1 - 0.1 * (frontWingAngle s - 0.5) - 0.9 * (rearWingAngle s - 0.5)\<rparr>"
  by (simp add: specBias_def dot_def coefficientMatrix_def newMatrix_def initialBias_def
      algebra_simps)

lemma calculateBias_unfold:
  "calculateBias s = Inr
     \<lparr>oversteer = 0.5 + (0.4 * (frontWingAngle s - 0.5) - 0.4 * (rearWingAngle s - 0.5)
         - 0.1 * (antiRollDistribution s - 0.5) + 0.1 * (tyreCamber s - 0.5)
         + 0.2 * (toeOut s - 0.5)),
      brakingStability = 0.45 + (0.2 * (rearWingAngle s - 0.5)
         - 0.2 * (frontWingAngle s - 0.5) + 0.15 * (antiRollDistribution s - 0.5)
         - 0.25 * (tyreCamber s - 0.5) - 0.05 * (toeOut s - 0.5)),
      cornering = 0.2 + (0.3 * (frontWingAngle s - 0.5) + 0.25 * (rearWingAngle s - 0.5)
         - 0.15 * (antiRollDistribution s - 0.5) + 0.25 * (tyreCamber s - 0.5)),
      traction = 0.25 + (0.25 * (rearWingAngle s - 0.5) - 0.15 * (frontWingAngle s - 0.5)
         + 0.5 * (antiRollDistribution s - 0.5) - 0.1 * (tyreCamber s - 0.5)),
      straights = 1 - 0.1 * (frontWingAngle s - 0.5) - 0.9 * (rearWingAngle s - 0.5)\<rparr>"
  unfolding calculateBias_def Let_def transpose_coefficientMatrix
  apply (simp add: sub_def mmul_def getRow_def newMatrix_def initialBias_def upt5 nth_Cons')
  apply (intro conjI; argo)
  done

lemma calculateBias_specBias: "calculateBias s = Inr (specBias s)"
  by (simp only: calculateBias_unfold specBias_unfold)

lemma calculateBias_midSetup: "calculateBias midSetup = Inr initialBias"
  by (simp add: calculateBias_unfold midSetup_def initialBias_def)

lemma calculateBias_onesSetup: "calculateBias onesSetup = Inr onesBias"
  by (simp add: calculateBias_unfold onesSetup_def onesBias_def)

lemma calculateBias_outOfRange: "calculateBias outOfRangeSetup = Inr outOfRangeBias"
  by (simp add: calculateBias_unfold outOfRangeSetup_def outOfRangeBias_def)

text \<open>
  C1. For every setup, with no restriction on its components, \<open>calculateBias\<close> succeeds
  and returns \<open>initialBias + CoefficientMatrix \<cdot> (setup - 0.5)\<close>, each component a dot
  product over the five setup parameters; for the all-0.5 setup it returns exactly
  oversteer 0.5, braking stability 0.45, cornering 0.2, traction 0.25, straights 1.0.
\<close>

theorem calculateBias_linear_formula:
  "calculateBias s = Inr (specBias s)
   \<and> calculateBias midSetup =
       Inr \<lparr>oversteer = 0.5, brakingStability = 0.45, cornering = 0.2, traction = 0.25,
            straights = 1.0\<rparr>"
  using calculateBias_specBias calculateBias_midSetup by (simp add: initialBias_def)

theorem calculateBias_linear_formula_witness:
  "calculateBias onesSetup = Inr (specBias onesSetup) \<and> specBias onesSetup = onesBias"
  using calculateBias_linear_formula [of onesSetup] calculateBias_onesSetup by simp

section \<open>The confidence score\<close>

lemma confidenceStep_specPenalty: "confidenceStep v t = t - specPenalty v"
  by (simp add: confidenceStep_def specPenalty_def tolerance_optimal_def Let_def)

lemma calculateConfidence_spec: "calculateConfidence b = specConfidence b"
  by (simp add: calculateConfidence_def specConfidence_def confidenceStep_specPenalty
      Let_def algebra_simps)

lemma calculateConfidence_initialBias: "calculateConfidence initialBias = 35"
  by (simp add: calculateConfidence_spec specConfidence_def specPenalty_def initialBias_def)

lemma calculateConfidence_onesBias: "calculateConfidence onesBias = 75"
  by (simp add: calculateConfidence_spec specConfidence_def specPenalty_def onesBias_def)

lemma calculateConfidence_outOfRangeBias: "calculateConfidence outOfRangeBias = 5"
  by (simp add: calculateConfidence_spec specConfidence_def specPenalty_def
      outOfRangeBias_def)

text \<open>
  C2. For every bias vector, \<open>calculateConfidence\<close> is 100 minus, for each of the five
  components whose distance from 0.5 exceeds 0.007, the penalty \<open>min (distance \<times> 100) 20\<close>,
  clamped at 0 from below; for the bias of the all-0.5 setup the result is exactly 35.
\<close>

theorem calculateConfidence_penalty_sum:
  "calculateConfidence b = specConfidence b
   \<and> calculateConfidence initialBias = 35
   \<and> predictConfidence midSetup = Inr 35"
  using calculateConfidence_spec [of b] calculateConfidence_initialBias
  by (simp add: predictConfidence_def calculateBias_midSetup)

theorem calculateConfidence_penalty_sum_witness:
  "calculateConfidence onesBias = specConfidence onesBias \<and> specConfidence onesBias = 75"
  using calculateConfidence_penalty_sum [of onesBias] calculateConfidence_onesBias by simp

text \<open>
  C7. For all setups \<open>a\<close> and \<open>b\<close>, with \<open>mid\<close> the all-0.5 setup:
  \<open>calculateBias a + calculateBias b - calculateBias mid\<close> equals
  \<open>calculateBias (a + b - mid)\<close> in every component (over exact arithmetic).
\<close>

theorem calculateBias_affine_combination:
  "\<exists>ba bb bm bc. calculateBias a = Inr ba \<and> calculateBias b = Inr bb
      \<and> calculateBias midSetup = Inr bm
      \<and> calculateBias (setupCombine a b midSetup) = Inr bc
      \<and> biasCombine ba bb bm = bc"
  apply (simp add: calculateBias_unfold)
  apply (simp add: biasCombine_def setupCombine_def midSetup_def)
  apply (intro conjI; argo)
  done

theorem calculateBias_affine_combination_witness:
  "calculateBias (setupCombine onesSetup outOfRangeSetup midSetup)
     = Inr (biasCombine onesBias outOfRangeBias initialBias)"
  using calculateBias_affine_combination [of onesSetup outOfRangeSetup]
    calculateBias_onesSetup calculateBias_outOfRange calculateBias_midSetup
  by auto

section \<open>Feedback compatibility\<close>

lemma feedbackMatches_metrics:
  "feedbackMatches a b =
     (feedbackCompatible (fb_oversteer a) (fb_oversteer b)
      \<and> feedbackCompatible (fb_brakingStability a) (fb_brakingStability b)
      \<and> feedbackCompatible (fb_cornering a) (fb_cornering b)
      \<and> feedbackCompatible (fb_traction a) (fb_traction b)
      \<and> feedbackCompatible (fb_straights a) (fb_straights b))"
  by (simp add: feedbackMatches_def metrics_def)

text \<open>
  C8. The compatibility relation on feedback levels is reflexive and symmetric, and two
  levels are compatible exactly when their ordinal positions in
  \<open>BAD < GOOD < GREAT < OPTIMAL\<close> differ by at most 1; so \<open>GOOD\<close> is compatible with
  \<open>BAD\<close>, \<open>GOOD\<close> and \<open>GREAT\<close> but not with \<open>OPTIMAL\<close>. The calculator's own
  \<open>feedbackMatches\<close> is the same relation.
\<close>

theorem feedbackCompatible_reflexive_symmetric_ordinal:
  "feedbackCompatible x x
   \<and> feedbackCompatible x y = feedbackCompatible y x
   \<and> feedbackCompatible x y = (\<bar>int (ordinal x) - int (ordinal y)\<bar> \<le> 1)
   \<and> calculator_feedbackMatches x y = feedbackCompatible x y
   \<and> feedbackCompatible GOOD BAD \<and> feedbackCompatible GOOD GOOD
   \<and> feedbackCompatible GOOD GREAT \<and> feedbackCompatible GOOD OPTIMAL = False"
  by (cases x; cases y; simp add: feedbackCompatible_def calculator_feedbackMatches_def)

theorem feedbackCompatible_reflexive_symmetric_ordinal_witness:
  "feedbackCompatible GREAT OPTIMAL \<and> feedbackCompatible OPTIMAL GREAT
   \<and> \<bar>int (ordinal GREAT) - int (ordinal OPTIMAL)\<bar> = 1
   \<and> feedbackCompatible BAD GREAT = False
   \<and> \<bar>int (ordinal BAD) - int (ordinal GREAT)\<bar> = 2"
  using feedbackCompatible_reflexive_symmetric_ordinal [of GREAT OPTIMAL]
    feedbackCompatible_reflexive_symmetric_ordinal [of BAD GREAT]
  by auto

section \<open>The candidate pool\<close>

lemma set_sortByScore: "set (sortByScore cs) = set cs"
  by (simp add: sortByScore_def)

lemma sorted_neg_sortedByScoreDesc:
  "sorted (map (\<lambda>c. - score c) cs) \<Longrightarrow> sortedByScoreDesc cs"
  by (induction cs rule: sortedByScoreDesc.induct) simp_all

lemma sortedByScoreDesc_sortByScore: "sortedByScoreDesc (sortByScore cs)"
  by (simp add: sortByScore_def sorted_neg_sortedByScoreDesc)

lemma pushCandidates_total: "\<exists>pool'. pushCandidates ss pool = Inr pool'"
  by (induction ss arbitrary: pool) (simp_all add: calculateBias_specBias Let_def)

lemma initializeCandidates_sorted:
  "\<exists>st'. initializeCandidates st = Inr st' \<and> sortedByScoreDesc (candidates st')
         \<and> attemptHistory st' = attemptHistory st"
proof -
  obtain pool where "pushCandidates (gridSetups 10) [] = Inr pool"
    using pushCandidates_total by blast
  then show ?thesis
    by (simp add: initializeCandidates_def sortedByScoreDesc_sortByScore)
qed

text \<open>The regeneration loops never fail, and they only ever add candidates whose
  feedback matches the submitted one.\<close>

lemma pushMatching_matching:
  assumes "\<forall>c \<in> set new. feedbackMatches (feedback c) fb"
  shows "\<exists>new'. pushMatching fb vs new = Inr new'
           \<and> (\<forall>c \<in> set new'. feedbackMatches (feedback c) fb)"
  using assms
proof (induction vs arbitrary: new)
  case Nil
  then show ?case by simp
next
  case (Cons v vs)
  show ?case
  proof (cases "feedbackMatches (generateFeedback (specBias v)) fb")
    case True
    let ?c = "\<lparr>cand_setup = v, bias = specBias v,
               confidence = calculateConfidence (specBias v),
               feedback = generateFeedback (specBias v),
               score = calculateScore v (specBias v) (calculateConfidence (specBias v))\<rparr>"
    have "\<forall>c \<in> set (new @ [?c]). feedbackMatches (feedback c) fb"
      using Cons.prems True by simp
    from Cons.IH [OF this] show ?thesis
      using True by (simp add: calculateBias_specBias Let_def)
  next
    case False
    from Cons.IH [OF Cons.prems] show ?thesis
      using False by (simp add: calculateBias_specBias Let_def)
  qed
qed

lemma expandLoop_matching:
  assumes "\<forall>c \<in> set new. feedbackMatches (feedback c) fb"
  shows "\<exists>new'. expandLoop rnd drawn fb cs new = Inr new'
           \<and> (\<forall>c \<in> set new'. feedbackMatches (feedback c) fb)"
  using assms
proof (induction cs arbitrary: drawn new)
  case Nil
  then show ?case by simp
next
  case (Cons c cs)
  obtain new1 where n1: "pushMatching fb
      (generateVariations (\<lambda>n. rnd (drawn + n)) (cand_setup c) 0.1 5) new = Inr new1"
    and m1: "\<forall>c \<in> set new1. feedbackMatches (feedback c) fb"
    using pushMatching_matching [OF Cons.prems] by blast
  from Cons.IH [OF m1, of "drawn + 25"] show ?case
    using n1 by (simp add: Let_def)
qed

lemma expandCandidatesAroundBest_matching:
  assumes "\<forall>c \<in> set (candidates st). feedbackMatches (feedback c) fb"
  shows "\<exists>st'. expandCandidatesAroundBest rnd fb st = Inr st'
           \<and> (\<forall>c \<in> set (candidates st'). feedbackMatches (feedback c) fb)
           \<and> attemptHistory st' = attemptHistory st"
proof -
  have "\<forall>c \<in> set ([]::SetupCandidate list). feedbackMatches (feedback c) fb" by simp
  from expandLoop_matching [OF this, of rnd 0 "take 3 (candidates st)"]
  obtain new' where "expandLoop rnd 0 fb (take 3 (candidates st)) [] = Inr new'"
    and "\<forall>c \<in> set new'. feedbackMatches (feedback c) fb" by blast
  then show ?thesis
    using assms by (auto simp add: expandCandidatesAroundBest_def Let_def)
qed

lemma narrowCandidates_result:
  "\<exists>st'. narrowCandidates rnd fb st = Inr st'
         \<and> (\<forall>c \<in> set (candidates st'). feedbackMatches (feedback c) fb)
         \<and> sortedByScoreDesc (candidates st')
         \<and> attemptHistory st' = attemptHistory st"
proof -
  let ?st1 = "st\<lparr>candidates :=
                   filter (\<lambda>c. feedbackMatches (feedback c) fb) (candidates st)\<rparr>"
  have f: "\<forall>c \<in> set (candidates ?st1). feedbackMatches (feedback c) fb" by simp
  show ?thesis
  proof (cases "length (candidates ?st1) < 5")
    case True
    from expandCandidatesAroundBest_matching [OF f, of rnd]
    obtain st2 where "expandCandidatesAroundBest rnd fb ?st1 = Inr st2"
      and "\<forall>c \<in> set (candidates st2). feedbackMatches (feedback c) fb"
      and "attemptHistory st2 = attemptHistory st" by auto
    then show ?thesis
      using True
      by (simp add: narrowCandidates_def Let_def set_sortByScore
          sortedByScoreDesc_sortByScore)
  next
    case False
    then show ?thesis
      by (simp add: narrowCandidates_def Let_def set_sortByScore
          sortedByScoreDesc_sortByScore)
  qed
qed

lemma recordAttempt_result:
  "\<exists>st'. recordAttempt rnd s fb st = Inr st'
         \<and> (\<forall>c \<in> set (candidates st'). feedbackMatches (feedback c) fb)
         \<and> sortedByScoreDesc (candidates st')
         \<and> attemptHistory st' = attemptHistory st @
              [\<lparr>att_setup = s, att_feedback = fb,
                att_confidence = calculateConfidence (specBias s)\<rparr>]"
  using narrowCandidates_result [of rnd fb "st\<lparr>attemptHistory := attemptHistory st @
              [\<lparr>att_setup = s, att_feedback = fb,
                att_confidence = calculateConfidence (specBias s)\<rparr>]\<rparr>"]
  by (simp add: recordAttempt_def calculateBias_specBias Let_def)

text \<open>On an empty pool nothing is filtered and nothing is regenerated: only the history
  grows.\<close>

lemma recordAttempt_empty_pool:
  "candidates st = [] \<Longrightarrow> calculateBias s = Inr b \<Longrightarrow>
   recordAttempt rnd s fb st =
     Inr (st\<lparr>attemptHistory := attemptHistory st @
               [\<lparr>att_setup = s, att_feedback = fb,
                 att_confidence = calculateConfidence b\<rparr>]\<rparr>)"
  by (simp add: recordAttempt_def narrowCandidates_def expandCandidatesAroundBest_def
      Let_def sortByScore_def)

subsection \<open>One recorded attempt on the depleted pool, evaluated\<close>

lemma calculateScore_mid: "calculateScore midSetup initialBias 35 = 45"
  by (simp add: calculateScore_def midSetup_def initialBias_def Let_def)

lemma generateFeedback_initialBias: "generateFeedback initialBias = midFeedback"
  by (simp add: generateFeedback_def classifyBiasMetric_def initialBias_def midFeedback_def)

lemma midFeedback_matches: "feedbackMatches midFeedback sampleFeedback"
  by (simp add: feedbackMatches_metrics midFeedback_def sampleFeedback_def
      feedbackCompatible_def)

lemma variations_mid:
  "generateVariations (\<lambda>n. constRandom (d + n)) midSetup (1 / 10) 5
     = [midSetup, midSetup, midSetup, midSetup, midSetup]"
  by (simp add: generateVariations_def constRandom_def upt5 clamp_def midSetup_def)

lemma variations_mid0:
  "generateVariations constRandom midSetup (1 / 10) 5
     = [midSetup, midSetup, midSetup, midSetup, midSetup]"
  using variations_mid [of 0] by simp

lemma pushMatching_mid:
  "pushMatching sampleFeedback (midSetup # vs) new
     = pushMatching sampleFeedback vs (new @ [midCandidate])"
  by (simp add: calculateBias_midSetup calculateConfidence_initialBias
      generateFeedback_initialBias calculateScore_mid midFeedback_matches Let_def
      midCandidate_def)

lemma recordAttempt_depletedPool:
  "recordAttempt constRandom midSetup sampleFeedback depletedPool = Inr regeneratedPool"
proof -
  have c: "cand_setup midCandidate = midSetup" "feedback midCandidate = midFeedback"
    "score midCandidate = 45"
    by (simp_all add: midCandidate_def)
  show ?thesis
    by (simp add: recordAttempt_def calculateBias_midSetup calculateConfidence_initialBias
        narrowCandidates_def Let_def depletedPool_def expandCandidatesAroundBest_def c
        midFeedback_matches variations_mid0 pushMatching_mid regeneratedPool_def
        sortByScore_def
        del: pushMatching.simps(2))
qed

text \<open>
  C5. For every pool state, every setup and every submitted feedback, \<open>recordAttempt\<close>
  returns, and in the state it returns every candidate of the pool has a feedback
  compatible with the submitted one on all five metrics (whether or not the pool was
  regenerated), and exactly one record, that of this attempt, was appended to the
  history.
\<close>

theorem recordAttempt_pool_compatible:
  "\<exists>st'. recordAttempt rnd s fb st = Inr st'
     \<and> (\<forall>c \<in> set (candidates st').
            feedbackCompatible (fb_oversteer (feedback c)) (fb_oversteer fb)
          \<and> feedbackCompatible (fb_brakingStability (feedback c)) (fb_brakingStability fb)
          \<and> feedbackCompatible (fb_cornering (feedback c)) (fb_cornering fb)
          \<and> feedbackCompatible (fb_traction (feedback c)) (fb_traction fb)
          \<and> feedbackCompatible (fb_straights (feedback c)) (fb_straights fb))
     \<and> (\<exists>b. calculateBias s = Inr b
            \<and> attemptHistory st' = attemptHistory st @
                  [\<lparr>att_setup = s, att_feedback = fb,
                    att_confidence = calculateConfidence b\<rparr>])"
  using recordAttempt_result [of rnd s fb st]
  by (auto simp add: feedbackMatches_metrics calculateBias_specBias)

theorem recordAttempt_pool_compatible_witness:
  "recordAttempt constRandom midSetup sampleFeedback depletedPool = Inr regeneratedPool
   \<and> length (candidates depletedPool) = 1
   \<and> length (candidates regeneratedPool) = 6
   \<and> feedbackCompatible (fb_oversteer (feedback (candidates regeneratedPool ! 5)))
        (fb_oversteer sampleFeedback)
   \<and> feedbackCompatible (fb_brakingStability (feedback (candidates regeneratedPool ! 5)))
        (fb_brakingStability sampleFeedback)
   \<and> feedbackCompatible (fb_cornering (feedback (candidates regeneratedPool ! 5)))
        (fb_cornering sampleFeedback)
   \<and> feedbackCompatible (fb_traction (feedback (candidates regeneratedPool ! 5)))
        (fb_traction sampleFeedback)
   \<and> feedbackCompatible (fb_straights (feedback (candidates regeneratedPool ! 5)))
        (fb_straights sampleFeedback)
   \<and> length (attemptHistory regeneratedPool) = length (attemptHistory depletedPool) + 1"
proof -
  have r: "recordAttempt constRandom midSetup sampleFeedback depletedPool
             = Inr regeneratedPool"
    by (rule recordAttempt_depletedPool)
  have m: "candidates regeneratedPool ! 5 \<in> set (candidates regeneratedPool)"
    by (simp add: regeneratedPool_def)
  from recordAttempt_pool_compatible [of constRandom midSetup sampleFeedback depletedPool]
    r m
  show ?thesis
    by (auto simp add: regeneratedPool_def depletedPool_def)
qed

text \<open>
  C6. After each operation that changes the pool (the initial generation of the
  constructor, \<open>recordAttempt\<close> with or without regeneration, and \<open>reset\<close>) the pool is
  sorted by score, highest first.
\<close>

theorem pool_sorted_after_mutation:
  "(\<exists>st'. newOptimizer = Inr st' \<and> sortedByScoreDesc (candidates st'))
   \<and> (\<exists>st'. recordAttempt rnd s fb st = Inr st' \<and> sortedByScoreDesc (candidates st'))
   \<and> (\<exists>st'. reset st = Inr st' \<and> sortedByScoreDesc (candidates st'))"
proof (intro conjI)
  show "\<exists>st'. newOptimizer = Inr st' \<and> sortedByScoreDesc (candidates st')"
    unfolding newOptimizer_def using initializeCandidates_sorted by blast
  show "\<exists>st'. recordAttempt rnd s fb st = Inr st' \<and> sortedByScoreDesc (candidates st')"
    using recordAttempt_result [of rnd s fb st] by blast
  show "\<exists>st'. reset st = Inr st' \<and> sortedByScoreDesc (candidates st')"
    unfolding reset_def using initializeCandidates_sorted by blast
qed

theorem pool_sorted_after_mutation_witness:
  "recordAttempt constRandom midSetup sampleFeedback depletedPool = Inr regeneratedPool
   \<and> sortedByScoreDesc (candidates regeneratedPool)"
  using pool_sorted_after_mutation [of constRandom midSetup sampleFeedback depletedPool]
    recordAttempt_depletedPool
  by auto

section \<open>The public entry points and validation\<close>

text \<open>The state \<open>narrowCandidates\<close> returns, in full.\<close>

lemma narrowCandidates_exact:
  "\<exists>new. expandLoop rnd 0 fb
            (take 3 (filter (\<lambda>c. feedbackMatches (feedback c) fb) (candidates st))) []
            = Inr new
         \<and> (\<forall>c \<in> set new. feedbackMatches (feedback c) fb)
         \<and> narrowCandidates rnd fb st =
             Inr (st\<lparr>candidates := sortByScore
                   (if length (filter (\<lambda>c. feedbackMatches (feedback c) fb) (candidates st)) < 5
                    then filter (\<lambda>c. feedbackMatches (feedback c) fb) (candidates st) @ new
                    else filter (\<lambda>c. feedbackMatches (feedback c) fb) (candidates st))\<rparr>)"
proof -
  have "\<forall>c \<in> set ([]::SetupCandidate list). feedbackMatches (feedback c) fb" by simp
  from expandLoop_matching [OF this, of rnd 0
      "take 3 (filter (\<lambda>c. feedbackMatches (feedback c) fb) (candidates st))"]
  obtain new where n: "expandLoop rnd 0 fb
      (take 3 (filter (\<lambda>c. feedbackMatches (feedback c) fb) (candidates st))) [] = Inr new"
    and m: "\<forall>c \<in> set new. feedbackMatches (feedback c) fb" by blast
  have "narrowCandidates rnd fb st =
             Inr (st\<lparr>candidates := sortByScore
                   (if length (filter (\<lambda>c. feedbackMatches (feedback c) fb) (candidates st)) < 5
                    then filter (\<lambda>c. feedbackMatches (feedback c) fb) (candidates st) @ new
                    else filter (\<lambda>c. feedbackMatches (feedback c) fb) (candidates st))\<rparr>)"
    using n by (simp add: narrowCandidates_def expandCandidatesAroundBest_def Let_def)
  with n m show ?thesis by blast
qed

lemma onesFeedback_mismatch: "feedbackMatches onesFeedback sampleFeedback = False"
  by (simp add: feedbackMatches_metrics onesFeedback_def sampleFeedback_def
      feedbackCompatible_def)

lemma expandLoop_mid:
  "expandLoop constRandom 0 sampleFeedback [midCandidate] []
     = Inr [midCandidate, midCandidate, midCandidate, midCandidate, midCandidate]"
proof -
  have c: "cand_setup midCandidate = midSetup" by (simp add: midCandidate_def)
  show ?thesis
    by (simp add: Let_def c variations_mid0 pushMatching_mid del: pushMatching.simps(2))
qed

text \<open>
  C4 (as the code has it). \<open>predictConfidence\<close> and \<open>recordAttempt\<close> validate nothing:
  for every setup, also one with a component outside \<open>[0, 1]\<close>, \<open>predictConfidence\<close>
  returns the confidence of the linear bias of the setup, and \<open>recordAttempt\<close> returns
  the state whose history is the old one followed by the record of this attempt and
  whose pool is narrowed: the candidates whose feedback matches the submitted one, joined
  when fewer than 5 of them remain by the matching variations of the first 3, sorted by
  score. Neither raises an error.
\<close>

theorem entry_points_accept_any_setup:
  "predictConfidence s = Inr (specConfidence (specBias s))
   \<and> (\<exists>new. expandLoop rnd 0 fb
               (take 3 (filter (\<lambda>c. feedbackMatches (feedback c) fb) (candidates st))) []
               = Inr new
          \<and> (\<forall>c \<in> set new. feedbackMatches (feedback c) fb)
          \<and> recordAttempt rnd s fb st =
              Inr (st\<lparr>attemptHistory := attemptHistory st @
                         [\<lparr>att_setup = s, att_feedback = fb,
                           att_confidence = specConfidence (specBias s)\<rparr>],
                       candidates := sortByScore
                         (if length (filter (\<lambda>c. feedbackMatches (feedback c) fb)
                                            (candidates st)) < 5
                          then filter (\<lambda>c. feedbackMatches (feedback c) fb) (candidates st)
                                 @ new
                          else filter (\<lambda>c. feedbackMatches (feedback c) fb)
                                 (candidates st))\<rparr>))"
proof -
  let ?kept = "filter (\<lambda>c. feedbackMatches (feedback c) fb) (candidates st)"
  let ?st1 = "st\<lparr>attemptHistory := attemptHistory st @
              [\<lparr>att_setup = s, att_feedback = fb,
                att_confidence = specConfidence (specBias s)\<rparr>]\<rparr>"
  have c: "candidates ?st1 = candidates st" by simp
  from narrowCandidates_exact [of rnd fb ?st1]
  obtain new where e: "expandLoop rnd 0 fb (take 3 ?kept) [] = Inr new"
    and m: "\<forall>c \<in> set new. feedbackMatches (feedback c) fb"
    and n: "narrowCandidates rnd fb ?st1 =
              Inr (?st1\<lparr>candidates := sortByScore
                     (if length ?kept < 5 then ?kept @ new else ?kept)\<rparr>)"
    unfolding c by blast
  have r: "recordAttempt rnd s fb st =
             Inr (?st1\<lparr>candidates := sortByScore
                    (if length ?kept < 5 then ?kept @ new else ?kept)\<rparr>)"
    using n
    by (simp only: recordAttempt_def calculateBias_specBias calculateConfidence_spec
        Let_def sum.case)
  have p: "predictConfidence s = Inr (specConfidence (specBias s))"
    by (simp add: predictConfidence_def calculateBias_specBias calculateConfidence_spec)
  from p e m r show ?thesis by blast
qed

theorem entry_points_accept_any_setup_witness:
  "frontWingAngle outOfRangeSetup = 2
   \<and> specConfidence (specBias outOfRangeSetup) = 5
   \<and> predictConfidence outOfRangeSetup = Inr (specConfidence (specBias outOfRangeSetup))
   \<and> candidates mixedPool = [onesCandidate, midCandidate]
   \<and> recordAttempt constRandom outOfRangeSetup sampleFeedback mixedPool = Inr narrowedPool"
proof -
  have b: "specBias outOfRangeSetup = outOfRangeBias"
    using calculateBias_specBias [of outOfRangeSetup] calculateBias_outOfRange by simp
  have v: "specConfidence (specBias outOfRangeSetup) = 5"
    using b calculateConfidence_spec [of outOfRangeBias] calculateConfidence_outOfRangeBias
    by simp
  have k: "filter (\<lambda>c. feedbackMatches (feedback c) sampleFeedback) (candidates mixedPool)
             = [midCandidate]"
    by (simp add: mixedPool_def onesCandidate_def midCandidate_def onesFeedback_mismatch
        midFeedback_matches)
  have sc: "score midCandidate = 45" by (simp add: midCandidate_def)
  from entry_points_accept_any_setup [of outOfRangeSetup constRandom sampleFeedback mixedPool]
  obtain new where p: "predictConfidence outOfRangeSetup
                         = Inr (specConfidence (specBias outOfRangeSetup))"
    and e: "expandLoop constRandom 0 sampleFeedback
              (take 3 (filter (\<lambda>c. feedbackMatches (feedback c) sampleFeedback)
                              (candidates mixedPool))) [] = Inr new"
    and r: "recordAttempt constRandom outOfRangeSetup sampleFeedback mixedPool =
              Inr (mixedPool\<lparr>attemptHistory := attemptHistory mixedPool @
                         [\<lparr>att_setup = outOfRangeSetup, att_feedback = sampleFeedback,
                           att_confidence = specConfidence (specBias outOfRangeSetup)\<rparr>],
                       candidates := sortByScore
                         (if length (filter (\<lambda>c. feedbackMatches (feedback c) sampleFeedback)
                                            (candidates mixedPool)) < 5
                          then filter (\<lambda>c. feedbackMatches (feedback c) sampleFeedback)
                                 (candidates mixedPool) @ new
                          else filter (\<lambda>c. feedbackMatches (feedback c) sampleFeedback)
                                 (candidates mixedPool))\<rparr>)"
    by blast
  have n: "new = [midCandidate, midCandidate, midCandidate, midCandidate, midCandidate]"
    using e unfolding k by (simp add: expandLoop_mid del: expandLoop.simps)
  have "recordAttempt constRandom outOfRangeSetup sampleFeedback mixedPool = Inr narrowedPool"
    unfolding r k n v
    by (simp add: mixedPool_def narrowedPool_def sortByScore_def sc)
  then show ?thesis
    using p v by (simp add: outOfRangeSetup_def mixedPool_def)
qed

text \<open>A setup with front-wing angle 2 is not rejected: \<open>predictConfidence\<close> returns the
  value 5 for it, and \<open>recordAttempt\<close> appends it to the history of the (here empty)
  optimizer.\<close>

theorem entry_points_no_validation_counterexample:
  "predictConfidence outOfRangeSetup = Inr 5
   \<and> recordAttempt constRandom outOfRangeSetup sampleFeedback emptyOptimizer
       = Inr \<lparr>candidates = [],
              attemptHistory = [\<lparr>att_setup = outOfRangeSetup,
                                 att_feedback = sampleFeedback, att_confidence = 5\<rparr>]\<rparr>"
  apply (intro conjI)
   apply (simp add: predictConfidence_def calculateBias_outOfRange
      calculateConfidence_outOfRangeBias)
  apply (simp add: recordAttempt_empty_pool [OF _ calculateBias_outOfRange]
      emptyOptimizer_def calculateConfidence_outOfRangeBias)
  done

section \<open>Statistics and convergence\<close>

lemma foldl_plus_sum_list: "foldl (+) a xs = a + sum_list (xs::real list)"
  by (induction xs arbitrary: a) (simp_all add: add.assoc)

lemma calculateConvergenceRate_spec:
  "calculateConvergenceRate st
     = max 0 (specMeanDelta (map att_confidence (attemptHistory st)))"
  by (simp add: calculateConvergenceRate_def specMeanDelta_def Let_def foldl_plus_sum_list
      interv_sum_list_conv_sum_set_nat)

lemma getStats_improvingState:
  "bestConfidence (getStats improvingState) = 35"
  "convergenceRate (getStats improvingState) = 40"
  by (simp_all add: getStats_def improvingState_def midCandidate_def
      calculateConvergenceRate_def Let_def)

lemma getStats_depletedPool:
  "bestConfidence (getStats depletedPool) = 35"
  "convergenceRate (getStats depletedPool) = 0"
  by (simp_all add: getStats_def depletedPool_def midCandidate_def
      calculateConvergenceRate_def Let_def)

text \<open>
  C3 (as the code has it). For every attempt history, the convergence rate reported by
  \<open>getStats\<close> is the arithmetic mean of the successive confidence deltas, clamped at 0
  from below, and 0 when the history has fewer than two attempts; so when the
  confidences decline the reported rate is 0.
\<close>

theorem convergenceRate_clamped_mean:
  "convergenceRate (getStats st)
     = max 0 (specMeanDelta (map att_confidence (attemptHistory st)))"
  by (simp add: getStats_def Let_def calculateConvergenceRate_spec)

theorem convergenceRate_clamped_mean_witness:
  "specMeanDelta (map att_confidence (attemptHistory improvingState)) = 40
   \<and> convergenceRate (getStats improvingState) = 40
   \<and> specMeanDelta (map att_confidence (attemptHistory emptyOptimizer)) = 0
   \<and> convergenceRate (getStats emptyOptimizer) = 0"
proof -
  have a: "specMeanDelta (map att_confidence (attemptHistory improvingState)) = 40"
    by (simp add: improvingState_def specMeanDelta_def)
  have b: "specMeanDelta (map att_confidence (attemptHistory emptyOptimizer)) = 0"
    by (simp add: emptyOptimizer_def specMeanDelta_def)
  from convergenceRate_clamped_mean [of improvingState]
    convergenceRate_clamped_mean [of emptyOptimizer] a b
  show ?thesis by simp
qed

text \<open>Recording the all-1 setup (confidence 75) and then the all-0.5 setup
  (confidence 35) gives a history whose mean delta is \<open>-40\<close>; the reported rate is 0,
  not the negative mean.\<close>

theorem convergenceRate_declining_counterexample:
  "recordAttempt constRandom onesSetup sampleFeedback emptyOptimizer = Inr oneAttempt
   \<and> recordAttempt constRandom midSetup sampleFeedback oneAttempt = Inr decliningHistory
   \<and> specMeanDelta (map att_confidence (attemptHistory decliningHistory)) = - 40
   \<and> convergenceRate (getStats decliningHistory) = 0
   \<and> convergenceRate (getStats decliningHistory)
       \<noteq> specMeanDelta (map att_confidence (attemptHistory decliningHistory))"
proof -
  have r1: "recordAttempt constRandom onesSetup sampleFeedback emptyOptimizer
              = Inr oneAttempt"
    by (simp add: recordAttempt_empty_pool [OF _ calculateBias_onesSetup]
        emptyOptimizer_def calculateConfidence_onesBias oneAttempt_def)
  have r2: "recordAttempt constRandom midSetup sampleFeedback oneAttempt
              = Inr decliningHistory"
    by (simp add: recordAttempt_empty_pool [OF _ calculateBias_midSetup]
        oneAttempt_def calculateConfidence_initialBias decliningHistory_def)
  have m: "specMeanDelta (map att_confidence (attemptHistory decliningHistory)) = - 40"
    by (simp add: decliningHistory_def specMeanDelta_def)
  have c: "convergenceRate (getStats decliningHistory) = 0"
    by (simp add: decliningHistory_def getStats_def calculateConvergenceRate_def Let_def)
  show ?thesis
    using r1 r2 m c by simp
qed

text \<open>
  C9. For every optimizer state, \<open>estimateAttemptsToOptimal\<close> returns 0 when the best
  confidence is at least 99; otherwise 5 when the convergence rate is at most 0, and
  \<open>ceil ((99 - bestConfidence) / convergenceRate)\<close> when the rate is positive; whenever
  the best confidence is below 99 the result is a positive integer.
\<close>

theorem estimateAttemptsToOptimal_cases:
  "estimateAttemptsToOptimal st =
     (if bestConfidence (getStats st) \<ge> 99 then 0
      else if convergenceRate (getStats st) \<le> 0 then 5
      else \<lceil>(99 - bestConfidence (getStats st)) / convergenceRate (getStats st)\<rceil>)
   \<and> (bestConfidence (getStats st) < 99 \<longrightarrow> 0 < estimateAttemptsToOptimal st)"
  by (auto simp add: estimateAttemptsToOptimal_def Let_def)

theorem estimateAttemptsToOptimal_cases_witness:
  "bestConfidence (getStats improvingState) < 99
   \<and> convergenceRate (getStats improvingState) = 40
   \<and> estimateAttemptsToOptimal improvingState = 2
   \<and> 0 < estimateAttemptsToOptimal improvingState
   \<and> bestConfidence (getStats depletedPool) < 99
   \<and> estimateAttemptsToOptimal depletedPool = 5"
proof -
  have c: "\<lceil>(64::real) / 40\<rceil> = 2" by (simp add: ceiling_eq_iff)
  from estimateAttemptsToOptimal_cases [of improvingState]
    estimateAttemptsToOptimal_cases [of depletedPool]
  show ?thesis
    by (simp add: getStats_improvingState getStats_depletedPool c)
qed

text \<open>
  C10. On an empty pool \<open>isOptimal\<close> returns false and \<open>getStats\<close> reports the best
  confidence 0; both are total functions of the state, so neither fails.
\<close>

theorem empty_pool_not_optimal:
  "candidates st = [] \<Longrightarrow> isOptimal st = False \<and> bestConfidence (getStats st) = 0"
  by (simp add: isOptimal_def getStats_def)

theorem empty_pool_not_optimal_witness:
  "candidates emptyOptimizer = [] \<and> isOptimal emptyOptimizer = False
   \<and> bestConfidence (getStats emptyOptimizer) = 0"
proof -
  have h: "candidates emptyOptimizer = []" by (simp add: emptyOptimizer_def)
  from empty_pool_not_optimal [OF h] h show ?thesis by simp
qed

end
